theory Spec2Isabelle
  imports Complex_Main
begin

section \<open>Data model (frontend/src/services/api.ts)\<close>

text \<open>
  The payload types of the REST client. Field names follow the TypeScript interfaces; a
  field called \<open>id\<close> carries the prefix of its record, since \<open>id\<close> is the identity
  function of HOL. An optional field (\<open>f?: T\<close>) is a \<open>T option\<close>.
\<close>

datatype Label = Label_A | Label_B | Label_C

fun label_str :: "Label \<Rightarrow> string" where
  "label_str Label_A = ''A''"
| "label_str Label_B = ''B''"
| "label_str Label_C = ''C''"

record Options =
  opt_A :: string
  opt_B :: string
  opt_C :: string

record TestQuestion =
  q_id :: int
  question :: string
  options :: Options
  correct_answer :: Label
  explanation :: string

datatype TestStatus = Status_generating | Status_ready | Status_error

record DocumentTest =
  test_id :: string
  document :: string
  document_title :: "string option"
  created_by :: int
  title :: string
  question_count :: int
  questions :: "TestQuestion list"
  status :: TestStatus
  generation_error :: "string option"
  generation_time_seconds :: "int option"
  created_at :: string
  updated_at :: string

datatype Grade = Grade_A | Grade_B | Grade_C | Grade_D | Grade_F

record TestResultDetail =
  rd_question_id :: int
  rd_question :: string
  rd_options :: Options
  rd_user_answer :: string
  rd_correct_answer :: string
  rd_is_correct :: bool
  rd_explanation :: string

record TestAttempt =
  attempt_id :: string
  attempt_test :: string
  attempt_test_title :: "string option"
  attempt_user :: int
  attempt_answers :: "string \<rightharpoonup> string"
  score :: real
  grade :: Grade
  passed :: bool
  correct_count :: int
  incorrect_count :: int
  results_detail :: "TestResultDetail list"
  attempt_time_taken_seconds :: "int option"
  started_at :: string
  completed_at :: "string option"

record SubmitTestRequest =
  req_test_id :: string
  req_answers :: "string \<rightharpoonup> string"
  req_time_taken_seconds :: "int option"

section \<open>JavaScript values\<close>

text \<open>
  \<open>Number.prototype.toString\<close> on an integer: the decimal digits, with a leading minus
  sign for a negative number. Question identifiers are integers (the primary keys of the
  backend), far below the range where JavaScript switches to exponent notation.
\<close>

definition digit_char :: "nat \<Rightarrow> char" where
  "digit_char d = ''0123456789'' ! d"

fun digits :: "nat \<Rightarrow> string" where
  "digits n = (if n < 10 then [digit_char n] else digits (n div 10) @ [digit_char (n mod 10)])"

declare digits.simps [simp del]

definition toString :: "int \<Rightarrow> string" where
  "toString i = (if i < 0 then CHR ''-'' # digits (nat (- i)) else digits (nat i))"

text \<open>
  Truthiness of a value read from an object whose values are strings: a missing key reads
  as \<open>undefined\<close> (falsy), the empty string is falsy, every other string is truthy.
\<close>

fun truthy :: "string option \<Rightarrow> bool" where
  "truthy None = False"
| "truthy (Some s) = (s \<noteq> [])"

text \<open>\<open>a || b\<close> on such values: the first operand if it is truthy, else the second.\<close>

definition js_or :: "string option \<Rightarrow> string option \<Rightarrow> string option" where
  "js_or a b = (if truthy a then a else b)"

section \<open>Errors of the REST client\<close>

text \<open>
  What a rejected call hands to a \<open>catch\<close> block: an error whose \<open>response\<close> is absent
  on a network failure, and whose response body may carry the fields \<open>error\<close>,
  \<open>message\<close>, \<open>detail\<close> (read by the pages) and \<open>access\<close> (read by the token refresh).
\<close>

record ResponseData =
  data_error :: "string option"
  data_message :: "string option"
  data_detail :: "string option"
  data_access :: "string option"

text \<open>A response body is taken to be a JSON object; an empty body has none of the fields.\<close>

record HttpResponse =
  http_status :: int
  http_data :: ResponseData

text \<open>
  A request configuration: the fields the interceptors read or write. \<open>retry\<close> is the
  property \<open>_retry\<close> that the response interceptor sets on a configuration (absent, so
  falsy, on a fresh one); \<open>Authorization\<close> is \<open>headers.Authorization\<close>.
\<close>

record RequestConfig =
  url :: string
  http_method :: string
  body :: string
  Authorization :: "string option"
  retry :: bool

record AxiosError =
  response :: "HttpResponse option"
  config :: RequestConfig

section \<open>The test session controller (frontend/src/components/ui/TestModal.tsx)\<close>

datatype TestScreen = Screen_start | Screen_test | Screen_results

text \<open>The component's state: one field per \<open>useState\<close> hook, in the order of the source.\<close>

record TestModal =
  currentScreen :: TestScreen
  test :: "DocumentTest option"
  isGenerating :: bool
  generateError :: "string option"
  currentQuestionIndex :: int
  answers :: "string \<rightharpoonup> string"
  startTime :: "int option"
  isSubmitting :: bool
  testAttempt :: "TestAttempt option"
  elapsedSeconds :: int

definition initial :: TestModal where
  "initial = \<lparr> currentScreen = Screen_start, test = None, isGenerating = False,
     generateError = None, currentQuestionIndex = 0, answers = Map.empty,
     startTime = None, isSubmitting = False, testAttempt = None, elapsedSeconds = 0 \<rparr>"

subsection \<open>Answer selection and navigation\<close>

definition handleAnswerSelect :: "int \<Rightarrow> Label \<Rightarrow> TestModal \<Rightarrow> TestModal" where
  "handleAnswerSelect questionId answer s =
     s\<lparr>answers := (answers s)(toString questionId \<mapsto> label_str answer)\<rparr>"

definition handlePreviousQuestion :: "TestModal \<Rightarrow> TestModal" where
  "handlePreviousQuestion s =
     (if currentQuestionIndex s > 0
      then s\<lparr>currentQuestionIndex := currentQuestionIndex s - 1\<rparr>
      else s)"

definition handleNextQuestion :: "TestModal \<Rightarrow> TestModal" where
  "handleNextQuestion s =
     (case test s of
        None \<Rightarrow> s
      | Some t \<Rightarrow>
          if currentQuestionIndex s < int (length (questions t)) - 1
          then s\<lparr>currentQuestionIndex := currentQuestionIndex s + 1\<rparr>
          else s)"

datatype Nav = Next | Previous

fun navigate :: "Nav \<Rightarrow> TestModal \<Rightarrow> TestModal" where
  "navigate Next s = handleNextQuestion s"
| "navigate Previous s = handlePreviousQuestion s"

text \<open>A run of navigation clicks, the first of the list first.\<close>

fun navigate_all :: "Nav list \<Rightarrow> TestModal \<Rightarrow> TestModal" where
  "navigate_all [] s = s"
| "navigate_all (e # es) s = navigate_all es (navigate e s)"

subsection \<open>The elapsed-time display\<close>

text \<open>
  One firing of the interval of the timer effect at clock reading \<open>now\<close> (milliseconds,
  \<open>Date.now()\<close>). The interval exists only while the screen is \<open>test\<close> and
  \<open>startTime\<close> is truthy (neither \<open>null\<close> nor \<open>0\<close>). \<open>Math.floor\<close> of the quotient is
  \<open>div\<close> on \<open>int\<close>, which rounds towards minus infinity as well.
\<close>

definition timer_tick :: "int \<Rightarrow> TestModal \<Rightarrow> TestModal" where
  "timer_tick now s =
     (case startTime s of
        None \<Rightarrow> s
      | Some t0 \<Rightarrow>
          if currentScreen s = Screen_test \<and> t0 \<noteq> 0
          then s\<lparr>elapsedSeconds := (now - t0) div 1000\<rparr>
          else s)"

fun timer_ticks :: "int list \<Rightarrow> TestModal \<Rightarrow> TestModal" where
  "timer_ticks [] s = s"
| "timer_ticks (now # rest) s = timer_ticks rest (timer_tick now s)"

subsection \<open>Generating a test\<close>

text \<open>
  An \<open>async\<close> handler is split at its \<open>await\<close>: the part that runs in the click, which
  issues the call, and the part that runs when the call settles, which is applied to the
  state the component has by then. The outcome of a call is \<open>Inr\<close> of the payload when
  the promise resolves and \<open>Inl\<close> of the error when it rejects.
\<close>

definition handleGenerateTest_begin :: "string \<Rightarrow> TestModal \<Rightarrow> TestModal \<times> string" where
  "handleGenerateTest_begin documentId s =
     (s\<lparr>isGenerating := True, generateError := None\<rparr>, documentId)"

definition generate_fallback :: string where
  "generate_fallback = ''Failed to generate test. Please try again.''"

text \<open>\<open>error.response?.data?.f\<close>: \<open>undefined\<close> when there is no response.\<close>

definition response_field :: "(ResponseData \<Rightarrow> string option) \<Rightarrow> AxiosError \<Rightarrow> string option" where
  "response_field f error = (case response error of None \<Rightarrow> None | Some r \<Rightarrow> f (http_data r))"

definition handleGenerateTest_resume :: "int \<Rightarrow> AxiosError + DocumentTest \<Rightarrow> TestModal \<Rightarrow> TestModal" where
  "handleGenerateTest_resume now outcome s =
     (case outcome of
        Inr generatedTest \<Rightarrow>
          s\<lparr>test := Some generatedTest, currentScreen := Screen_test, startTime := Some now,
            answers := Map.empty, currentQuestionIndex := 0, isGenerating := False\<rparr>
      | Inl error \<Rightarrow>
          s\<lparr>generateError :=
              js_or (response_field data_error error)
                (js_or (response_field data_message error) (Some generate_fallback)),
            isGenerating := False\<rparr>)"

text \<open>The whole handler when nothing else happens while the call is in flight.\<close>

definition handleGenerateTest ::
  "(string \<Rightarrow> AxiosError + DocumentTest) \<Rightarrow> int \<Rightarrow> string \<Rightarrow> TestModal \<Rightarrow> TestModal" where
  "handleGenerateTest generateTest now documentId s =
     (case handleGenerateTest_begin documentId s of
        (s1, arg) \<Rightarrow> handleGenerateTest_resume now (generateTest arg) s1)"

subsection \<open>Submitting a test\<close>

text \<open>
  What the user sees and answers: \<open>Confirm m b\<close> is a \<open>window.confirm(m)\<close> that
  returned \<open>b\<close>, \<open>Alert m\<close> an \<open>alert(m)\<close>. The user is a function from the text of a
  confirmation dialog to the answer given.
\<close>

datatype Effect = Confirm string bool | Alert string

text \<open>A question counts as unanswered when \<open>answers[q.id.toString()]\<close> is falsy.\<close>

definition unansweredCount :: "DocumentTest \<Rightarrow> (string \<rightharpoonup> string) \<Rightarrow> nat" where
  "unansweredCount t ans =
     length (filter (\<lambda>q. \<not> truthy (ans (toString (q_id q)))) (questions t))"

definition incomplete_message :: "nat \<Rightarrow> string" where
  "incomplete_message n =
     ''You have '' @ toString (int n) @ '' unanswered question(s). Submit anyway?''"

definition final_message :: string where
  "final_message =
     ''Are you sure you want to submit your test? You cannot change your answers after submission.''"

definition submit_failed_message :: string where
  "submit_failed_message = ''Failed to submit test. Please try again.''"

text \<open>
  The synchronous part: the dialogs shown, the new state, and the call issued, if any.
  \<open>now\<close> is the reading of \<open>Date.now()\<close> taken after the dialogs.
\<close>

definition handleSubmitTest_begin ::
  "(string \<Rightarrow> bool) \<Rightarrow> int \<Rightarrow> TestModal \<Rightarrow> TestModal \<times> Effect list \<times> SubmitTestRequest option" where
  "handleSubmitTest_begin confirm now s =
     (case test s of
        None \<Rightarrow> (s, [], None)
      | Some t \<Rightarrow>
          let unanswered = unansweredCount t (answers s);
              asked = (if unanswered > 0
                       then [Confirm (incomplete_message unanswered)
                               (confirm (incomplete_message unanswered))]
                       else [])
          in if unanswered > 0 \<and> \<not> confirm (incomplete_message unanswered)
             then (s, asked, None)
             else if \<not> confirm final_message
             then (s, asked @ [Confirm final_message False], None)
             else
               let timeTaken =
                     (case startTime s of
                        None \<Rightarrow> None
                      | Some t0 \<Rightarrow> if t0 \<noteq> 0 then Some ((now - t0) div 1000) else None)
               in (s\<lparr>isSubmitting := True\<rparr>,
                   asked @ [Confirm final_message True],
                   Some \<lparr> req_test_id = test_id t, req_answers = answers s,
                          req_time_taken_seconds = timeTaken \<rparr>))"

definition handleSubmitTest_resume ::
  "AxiosError + TestAttempt \<Rightarrow> TestModal \<Rightarrow> TestModal \<times> Effect list" where
  "handleSubmitTest_resume outcome s =
     (case outcome of
        Inr result \<Rightarrow>
          (s\<lparr>testAttempt := Some result, currentScreen := Screen_results,
             isSubmitting := False\<rparr>, [])
      | Inl error \<Rightarrow> (s\<lparr>isSubmitting := False\<rparr>, [Alert submit_failed_message]))"

text \<open>The whole handler when nothing else happens while the call is in flight.\<close>

definition handleSubmitTest ::
  "(string \<Rightarrow> bool) \<Rightarrow> int \<Rightarrow> (SubmitTestRequest \<Rightarrow> AxiosError + TestAttempt) \<Rightarrow> TestModal
     \<Rightarrow> TestModal \<times> Effect list" where
  "handleSubmitTest confirm now submitTest s =
     (case handleSubmitTest_begin confirm now s of
        (s1, shown, None) \<Rightarrow> (s1, shown)
      | (s1, shown, Some request) \<Rightarrow>
          (case handleSubmitTest_resume (submitTest request) s1 of
             (s2, shown2) \<Rightarrow> (s2, shown @ shown2)))"

text \<open>The submit control is rendered with \<open>disabled={isSubmitting}\<close>.\<close>

definition submit_enabled :: "TestModal \<Rightarrow> bool" where
  "submit_enabled s = (\<not> isSubmitting s)"

text \<open>
  What the specification says the unanswered count is: the number of questions minus the
  number of entries of the AnswerSet.
\<close>

definition unanswered_spec :: "DocumentTest \<Rightarrow> (string \<rightharpoonup> string) \<Rightarrow> int" where
  "unanswered_spec t ans = int (length (questions t)) - int (card (dom ans))"

text \<open>
  What the specification says a failed call shows: the server's error field if present,
  otherwise its detail field if present, otherwise a generic message.
\<close>

definition message_spec :: "string \<Rightarrow> AxiosError \<Rightarrow> string" where
  "message_spec generic error =
     (case response_field data_error error of
        Some e \<Rightarrow> e
      | None \<Rightarrow>
          (case response_field data_detail error of
             Some d \<Rightarrow> d
           | None \<Rightarrow> generic))"

section \<open>The REST client (frontend/src/services/api.ts)\<close>

definition API_BASE_URL :: string where
  "API_BASE_URL = ''http://localhost:8000''"

text \<open>
  The browser as the client sees it: the two entries of \<open>localStorage\<close>,
  \<open>window.location.href\<close>, and the requests put on the wire so far, oldest first.
\<close>

record Browser =
  accessToken :: "string option"
  refreshToken :: "string option"
  location_href :: string
  sent :: "RequestConfig list"

text \<open>
  The backend answers a request, given the requests that came before it, with a response
  or with none (a network failure).
\<close>

type_synonym Server = "RequestConfig list \<Rightarrow> RequestConfig \<Rightarrow> HttpResponse option"

definition getAccessToken :: "Browser \<Rightarrow> string option" where
  "getAccessToken w = accessToken w"

definition getRefreshToken :: "Browser \<Rightarrow> string option" where
  "getRefreshToken w = refreshToken w"

definition setTokens :: "string \<Rightarrow> string \<Rightarrow> Browser \<Rightarrow> Browser" where
  "setTokens access refresh w = w\<lparr>accessToken := Some access, refreshToken := Some refresh\<rparr>"

definition clearTokens :: "Browser \<Rightarrow> Browser" where
  "clearTokens w = w\<lparr>accessToken := None, refreshToken := None\<rparr>"

text \<open>
  Putting one request on the wire. The promise resolves for a status in the 2xx range
  (the default \<open>validateStatus\<close>) and rejects otherwise, with the configuration sent.
\<close>

definition transmit :: "Server \<Rightarrow> RequestConfig \<Rightarrow> Browser \<Rightarrow> (AxiosError + HttpResponse) \<times> Browser" where
  "transmit srv cfg w =
     (case srv (sent w) cfg of
        None \<Rightarrow> (Inl \<lparr> response = None, config = cfg \<rparr>, w\<lparr>sent := sent w @ [cfg]\<rparr>)
      | Some r \<Rightarrow>
          if 200 \<le> http_status r \<and> http_status r < 300
          then (Inr r, w\<lparr>sent := sent w @ [cfg]\<rparr>)
          else (Inl \<lparr> response = Some r, config = cfg \<rparr>, w\<lparr>sent := sent w @ [cfg]\<rparr>))"

definition request_interceptor :: "Browser \<Rightarrow> RequestConfig \<Rightarrow> RequestConfig" where
  "request_interceptor w cfg =
     (case getAccessToken w of
        None \<Rightarrow> cfg
      | Some token \<Rightarrow>
          if token \<noteq> [] then cfg\<lparr>Authorization := Some (''Bearer '' @ token)\<rparr> else cfg)"

text \<open>
  The refresh call goes through plain \<open>axios.post\<close>, not through the instance: no
  interceptor touches it. Its body carries the refresh token.
\<close>

definition refresh_request :: "string \<Rightarrow> RequestConfig" where
  "refresh_request refreshToken' =
     \<lparr> url = API_BASE_URL @ ''/api/users/token/refresh/'', http_method = ''post'',
       body = refreshToken', Authorization = None, retry = False \<rparr>"

text \<open>\<open>error.response?.status\<close>\<close>

definition error_status :: "AxiosError \<Rightarrow> int option" where
  "error_status error = map_option http_status (response error)"

text \<open>
  A call through the instance: the request interceptor, the wire, and on a rejection the
  response interceptor, which may call the instance again with the same configuration.
  \<open>access\<close> read from a body without that field is \<open>undefined\<close>, which
  \<open>localStorage\<close> and the template string both turn into the text \<open>undefined\<close>.
\<close>

function axiosInstance :: "Server \<Rightarrow> RequestConfig \<Rightarrow> Browser \<Rightarrow> (AxiosError + HttpResponse) \<times> Browser" where
  "axiosInstance srv cfg w =
     (case transmit srv (request_interceptor w cfg) w of
        (Inr response', w1) \<Rightarrow> (Inr response', w1)
      | (Inl error, w1) \<Rightarrow>
          if error_status error = Some 401 \<and> \<not> retry (config error) then
            (case getRefreshToken w1 of
               None \<Rightarrow> (Inl (error\<lparr>config := (config error)\<lparr>retry := True\<rparr>\<rparr>), w1)
             | Some refreshToken' \<Rightarrow>
                 if refreshToken' = []
                 then (Inl (error\<lparr>config := (config error)\<lparr>retry := True\<rparr>\<rparr>), w1)
                 else
                   (case transmit srv (refresh_request refreshToken') w1 of
                      (Inr response', w2) \<Rightarrow>
                        (let access = (case data_access (http_data response') of
                                         None \<Rightarrow> ''undefined'' | Some a \<Rightarrow> a)
                         in axiosInstance srv
                              ((config error)\<lparr>retry := True,
                                 Authorization := Some (''Bearer '' @ access)\<rparr>)
                              (setTokens access refreshToken' w2))
                    | (Inl refreshError, w2) \<Rightarrow>
                        (Inl refreshError, (clearTokens w2)\<lparr>location_href := ''/login''\<rparr>)))
          else (Inl error, w1))"
  by pat_completeness auto

termination
proof (relation "measure (\<lambda>(srv, cfg, w). if retry cfg then 0 else 1)")
  show "wf (measure (\<lambda>(srv, cfg, w). if retry cfg then 0 else (1::nat)))"
    by simp
qed (auto simp: transmit_def request_interceptor_def split: option.splits if_splits)

declare axiosInstance.simps [simp del]

section \<open>Example sessions\<close>

text \<open>Concrete payloads and states on which the theorems below are evaluated.\<close>

definition example_question :: "int \<Rightarrow> TestQuestion" where
  "example_question i =
     \<lparr> q_id = i, question = ''Which one?'',
       options = \<lparr> opt_A = ''first'', opt_B = ''second'', opt_C = ''third'' \<rparr>,
       correct_answer = Label_B, explanation = ''The second one.'' \<rparr>"

definition example_test :: "TestStatus \<Rightarrow> int list \<Rightarrow> DocumentTest" where
  "example_test st ids =
     \<lparr> test_id = ''t-1'', document = ''d-1'', document_title = None, created_by = 1,
       title = ''Practice test'', question_count = int (length ids),
       questions = map example_question ids, status = st, generation_error = None,
       generation_time_seconds = None, created_at = ''2025-01-01'', updated_at = ''2025-01-01'' \<rparr>"

text \<open>
  A session in progress on a three-question test, started at clock reading 1000, the
  first question answered with A, the second question on display.
\<close>

definition example_session :: TestModal where
  "example_session =
     \<lparr> currentScreen = Screen_test, test = Some (example_test Status_ready [1, 2, 3]),
       isGenerating = False, generateError = None, currentQuestionIndex = 1,
       answers = [''1'' \<mapsto> ''A''], startTime = Some 1000, isSubmitting = False,
       testAttempt = None, elapsedSeconds = 0 \<rparr>"

definition example_config :: RequestConfig where
  "example_config =
     \<lparr> url = ''/api/documents/tests/generate/'', http_method = ''post'', body = ''d-1'',
       Authorization = None, retry = False \<rparr>"

text \<open>A failure without a response, and failures whose body carries one field each.\<close>

definition network_error :: AxiosError where
  "network_error = \<lparr> response = None, config = example_config \<rparr>"

definition server_error :: "ResponseData \<Rightarrow> AxiosError" where
  "server_error d =
     \<lparr> response = Some \<lparr> http_status = 400, http_data = d \<rparr>, config = example_config \<rparr>"

definition no_fields :: ResponseData where
  "no_fields = \<lparr> data_error = None, data_message = None, data_detail = None, data_access = None \<rparr>"

text \<open>
  A browser holding a token pair and one holding none; a backend that answers 401 to
  everything, the refresh call included, and one that grants the refresh call a new
  access token and still answers 401 to everything else.
\<close>

definition logged_in :: Browser where
  "logged_in =
     \<lparr> accessToken = Some ''old'', refreshToken = Some ''r-1'', location_href = ''/dashboard'',
       sent = [] \<rparr>"

definition logged_out :: Browser where
  "logged_out =
     \<lparr> accessToken = None, refreshToken = None, location_href = ''/dashboard'', sent = [] \<rparr>"

definition unauthorized :: HttpResponse where
  "unauthorized = \<lparr> http_status = 401, http_data = no_fields \<rparr>"

definition server_rejecting :: Server where
  "server_rejecting history cfg = Some unauthorized"

definition server_refreshing :: Server where
  "server_refreshing history cfg =
     (if url cfg = API_BASE_URL @ ''/api/users/token/refresh/''
      then Some \<lparr> http_status = 200, http_data = no_fields\<lparr>data_access := Some ''new''\<rparr> \<rparr>
      else Some unauthorized)"

section \<open>Decimal rendering is injective\<close>

lemma digit_char_inj: "a < 10 \<Longrightarrow> b < 10 \<Longrightarrow> digit_char a = digit_char b \<Longrightarrow> a = b"
proof -
  assume a: "a < 10" and b: "b < 10" and eq: "digit_char a = digit_char b"
  have d: "distinct ''0123456789''" by simp
  have "a < length ''0123456789''" "b < length ''0123456789''"
    using a b by simp_all
  with d eq show ?thesis
    unfolding digit_char_def using nth_eq_iff_index_eq by blast
qed

lemma digit_char_not_minus: "d < 10 \<Longrightarrow> digit_char d \<noteq> CHR ''-''"
proof -
  assume "d < 10"
  then have "digit_char d \<in> set ''0123456789''"
    unfolding digit_char_def by (intro nth_mem) simp
  then show ?thesis by auto
qed

lemma digits_not_Nil: "digits n \<noteq> []" "[] \<noteq> digits n"
  by (subst digits.simps, simp)+

lemma digits_inj: "digits n = digits m \<Longrightarrow> n = m"
proof (induction n arbitrary: m rule: digits.induct)
  case (1 n)
  show ?case
  proof (cases "n < 10")
    case small_n: True
    show ?thesis
    proof (cases "m < 10")
      case True
      with small_n "1.prems" show ?thesis
        by (simp add: digits.simps [of n] digits.simps [of m] digit_char_inj)
    next
      case False
      with small_n "1.prems" show ?thesis
        by (simp add: digits.simps [of n] digits.simps [of m] digits_not_Nil)
    qed
  next
    case big_n: False
    show ?thesis
    proof (cases "m < 10")
      case True
      with big_n "1.prems" show ?thesis
        by (simp add: digits.simps [of n] digits.simps [of m] digits_not_Nil)
    next
      case False
      with big_n "1.prems" have eq: "digits (n div 10) = digits (m div 10)"
        and last: "digit_char (n mod 10) = digit_char (m mod 10)"
        by (simp_all add: digits.simps [of n] digits.simps [of m])
      from "1.IH" [OF big_n eq] have "n div 10 = m div 10" .
      moreover from last have "n mod 10 = m mod 10"
        by (simp add: digit_char_inj)
      ultimately show ?thesis
        by (metis div_mult_mod_eq)
    qed
  qed
qed

lemma hd_digits: "hd (digits n) \<noteq> CHR ''-''"
proof (induction n rule: digits.induct)
  case (1 n)
  then show ?case
    by (subst digits.simps) (simp add: digit_char_not_minus digits_not_Nil)
qed

lemma toString_inj: "toString i = toString j \<Longrightarrow> i = j"
proof -
  assume eq: "toString i = toString j"
  have neg_pos: "CHR ''-'' # digits a \<noteq> digits b" for a b
    using hd_digits [of b] by (metis list.sel(1))
  show ?thesis
  proof (cases "i < 0")
    case i_neg: True
    show ?thesis
    proof (cases "j < 0")
      case True
      with i_neg eq have "nat (- i) = nat (- j)"
        by (simp add: toString_def digits_inj)
      with i_neg True show ?thesis by simp
    next
      case False
      with i_neg eq neg_pos show ?thesis by (simp add: toString_def)
    qed
  next
    case i_pos: False
    show ?thesis
    proof (cases "j < 0")
      case True
      with i_pos eq neg_pos [of "nat (- j)" "nat i"] show ?thesis
        by (simp add: toString_def)
    next
      case False
      with i_pos eq have "nat i = nat j"
        by (simp add: toString_def digits_inj)
      with i_pos False show ?thesis by simp
    qed
  qed
qed

lemma inj_toString: "inj toString"
  by (rule injI) (rule toString_inj)

lemmas toString_eval = toString_def digits.simps digit_char_def

section \<open>Navigation\<close>

lemma navigate_keeps:
  "(navigate e s)\<lparr>currentQuestionIndex := i\<rparr> = s\<lparr>currentQuestionIndex := i\<rparr>"
  by (cases e) (simp_all add: handleNextQuestion_def handlePreviousQuestion_def split: option.splits)

lemma navigate_test: "test (navigate e s) = test s"
  by (cases e) (simp_all add: handleNextQuestion_def handlePreviousQuestion_def split: option.splits)

lemma navigate_range:
  "test s = Some t \<Longrightarrow> 0 \<le> currentQuestionIndex s
   \<Longrightarrow> currentQuestionIndex s < int (length (questions t))
   \<Longrightarrow> 0 \<le> currentQuestionIndex (navigate e s)
       \<and> currentQuestionIndex (navigate e s) < int (length (questions t))"
  by (cases e) (auto simp: handleNextQuestion_def handlePreviousQuestion_def)

lemma navigate_all_keeps:
  "(navigate_all es s)\<lparr>currentQuestionIndex := i\<rparr> = s\<lparr>currentQuestionIndex := i\<rparr>"
proof (induction es arbitrary: s)
  case Nil
  show ?case by simp
next
  case (Cons e es)
  have "(navigate_all (e # es) s)\<lparr>currentQuestionIndex := i\<rparr>
        = (navigate e s)\<lparr>currentQuestionIndex := i\<rparr>"
    using Cons.IH [of "navigate e s"] by simp
  then show ?case by (simp add: navigate_keeps)
qed

lemma navigate_all_range:
  "test s = Some t \<Longrightarrow> 0 \<le> currentQuestionIndex s
   \<Longrightarrow> currentQuestionIndex s < int (length (questions t))
   \<Longrightarrow> 0 \<le> currentQuestionIndex (navigate_all es s)
       \<and> currentQuestionIndex (navigate_all es s) < int (length (questions t))"
proof (induction es arbitrary: s)
  case Nil
  then show ?case by simp
next
  case (Cons e es)
  have "test (navigate e s) = Some t"
    using Cons.prems(1) by (simp add: navigate_test)
  moreover note navigate_range [OF Cons.prems, of e]
  ultimately show ?case
    using Cons.IH [of "navigate e s"] by simp
qed

lemma example_session_facts:
  "test example_session = Some (example_test Status_ready [1, 2, 3])"
  "currentQuestionIndex example_session = 1"
  "length (questions (example_test Status_ready [1, 2, 3])) = 3"
  by (simp_all add: example_session_def example_test_def)

text \<open>
  C6. In a session in progress on a test of N questions, whose current index is within
  [0, N - 1], the index stays within [0, N - 1] through every run of next and previous
  clicks, and such a run changes no other field of the state. \<open>previous\<close> at index 0
  and \<open>next\<close> at index N - 1 leave the state as it is; anywhere else they move the
  index by one.
\<close>

theorem navigation_stays_in_range:
  assumes "test s = Some t"
    and "0 \<le> currentQuestionIndex s"
    and "currentQuestionIndex s < int (length (questions t))"
  shows "0 \<le> currentQuestionIndex (navigate_all es s)
       \<and> currentQuestionIndex (navigate_all es s) \<le> int (length (questions t)) - 1
       \<and> (navigate_all es s)\<lparr>currentQuestionIndex := currentQuestionIndex s\<rparr> = s
       \<and> (currentQuestionIndex s = 0 \<longrightarrow> handlePreviousQuestion s = s)
       \<and> (currentQuestionIndex s = int (length (questions t)) - 1 \<longrightarrow> handleNextQuestion s = s)
       \<and> (currentQuestionIndex s > 0 \<longrightarrow>
            currentQuestionIndex (handlePreviousQuestion s) = currentQuestionIndex s - 1)
       \<and> (currentQuestionIndex s < int (length (questions t)) - 1 \<longrightarrow>
            currentQuestionIndex (handleNextQuestion s) = currentQuestionIndex s + 1)"
proof -
  have "0 \<le> currentQuestionIndex (navigate_all es s)
        \<and> currentQuestionIndex (navigate_all es s) \<le> int (length (questions t)) - 1"
    using navigate_all_range [OF assms, of es] by simp
  moreover have "(navigate_all es s)\<lparr>currentQuestionIndex := currentQuestionIndex s\<rparr> = s"
    by (simp add: navigate_all_keeps)
  moreover have "currentQuestionIndex s = 0 \<longrightarrow> handlePreviousQuestion s = s"
    by (simp add: handlePreviousQuestion_def)
  moreover have "currentQuestionIndex s = int (length (questions t)) - 1 \<longrightarrow> handleNextQuestion s = s"
    using assms(1) by (simp add: handleNextQuestion_def)
  moreover have "currentQuestionIndex s > 0 \<longrightarrow>
            currentQuestionIndex (handlePreviousQuestion s) = currentQuestionIndex s - 1"
    by (simp add: handlePreviousQuestion_def)
  moreover have "currentQuestionIndex s < int (length (questions t)) - 1 \<longrightarrow>
            currentQuestionIndex (handleNextQuestion s) = currentQuestionIndex s + 1"
    using assms(1) by (simp add: handleNextQuestion_def)
  ultimately show ?thesis by blast
qed

theorem navigation_stays_in_range_witness:
  "test example_session = Some (example_test Status_ready [1, 2, 3])
   \<and> 0 \<le> currentQuestionIndex example_session
   \<and> currentQuestionIndex example_session < int (length (questions (example_test Status_ready [1, 2, 3])))
   \<and> currentQuestionIndex (navigate_all [Next, Next, Next, Previous] example_session) = 1
   \<and> currentQuestionIndex (handleNextQuestion example_session) = 2
   \<and> handleNextQuestion (handleNextQuestion example_session) = handleNextQuestion example_session
   \<and> currentQuestionIndex (handlePreviousQuestion example_session) = 0
   \<and> handlePreviousQuestion (handlePreviousQuestion example_session)
       = handlePreviousQuestion example_session"
  using navigation_stays_in_range [of example_session "example_test Status_ready [1, 2, 3]"
      "[Next, Next, Next, Previous]"]
    navigation_stays_in_range [of "handleNextQuestion example_session"
      "example_test Status_ready [1, 2, 3]" "[]"]
    navigation_stays_in_range [of "handlePreviousQuestion example_session"
      "example_test Status_ready [1, 2, 3]" "[]"]
  by (simp add: example_session_facts handleNextQuestion_def handlePreviousQuestion_def)

section \<open>Answer selection\<close>

text \<open>
  C7. Selecting the same label twice for a question gives the state that selecting it
  once gives; selecting another label afterwards gives the state that selecting only
  that label gives, and the entry of the question is then that label; the entries of
  the other questions are untouched, and no field of the state but the AnswerSet
  changes (in particular the screen does not).
\<close>

theorem selectAnswer_idempotent_overwriting:
  "handleAnswerSelect q l (handleAnswerSelect q l s) = handleAnswerSelect q l s
   \<and> handleAnswerSelect q l' (handleAnswerSelect q l s) = handleAnswerSelect q l' s
   \<and> answers (handleAnswerSelect q l' (handleAnswerSelect q l s)) (toString q) = Some (label_str l')
   \<and> (q' \<noteq> q \<longrightarrow>
        answers (handleAnswerSelect q l s) (toString q') = answers s (toString q'))
   \<and> (handleAnswerSelect q l s)\<lparr>answers := answers s\<rparr> = s"
  using toString_inj [of q' q] by (auto simp: handleAnswerSelect_def)

theorem selectAnswer_idempotent_overwriting_witness:
  "(1::int) \<noteq> 2
   \<and> answers (handleAnswerSelect 2 Label_C example_session) (toString 1) = Some ''A''
   \<and> answers (handleAnswerSelect 2 Label_B (handleAnswerSelect 2 Label_C example_session)) (toString 2)
       = Some ''B''
   \<and> handleAnswerSelect 2 Label_C (handleAnswerSelect 2 Label_C example_session)
       = handleAnswerSelect 2 Label_C example_session"
  using selectAnswer_idempotent_overwriting [of 2 Label_C example_session Label_B 1]
  by (simp add: example_session_def handleAnswerSelect_def toString_eval)

section \<open>Submission\<close>

lemma incomplete_not_final: "incomplete_message n \<noteq> final_message"
  by (simp add: incomplete_message_def final_message_def)

lemma example_unanswered:
  "unansweredCount (example_test Status_ready [1, 2, 3]) (answers example_session) = 2"
  by (simp add: unansweredCount_def example_test_def example_question_def example_session_def
      toString_eval)

text \<open>
  C1. In a session in progress (a test is loaded), the submit call is issued exactly when
  the incomplete-answers confirmation, asked exactly when the unanswered count is
  greater than 0, and the final confirmation, asked whatever the count is unless the
  first dialog was declined, have both been accepted. A call that is issued comes after
  an accepted final confirmation with no declined dialog before it, and carries the test
  identifier and the AnswerSet. When no call is issued, so when either confirmation is
  declined, the whole state (screen, AnswerSet, current index, timer and the rest) is
  unchanged.
\<close>

theorem submit_requires_confirmations:
  assumes "test s = Some t"
    and "handleSubmitTest_begin confirm now s = (s', shown, call)"
  shows "(call \<noteq> None)
           = ((unansweredCount t (answers s) > 0
                \<longrightarrow> confirm (incomplete_message (unansweredCount t (answers s))))
              \<and> confirm final_message)
       \<and> (\<exists>b. Confirm (incomplete_message (unansweredCount t (answers s))) b \<in> set shown)
           = (unansweredCount t (answers s) > 0)
       \<and> (\<exists>b. Confirm final_message b \<in> set shown)
           = (unansweredCount t (answers s) > 0
                \<longrightarrow> confirm (incomplete_message (unansweredCount t (answers s))))
       \<and> (call \<noteq> None \<longrightarrow>
            shown \<noteq> [] \<and> last shown = Confirm final_message True
            \<and> (\<forall>m. Confirm m False \<notin> set shown)
            \<and> map_option req_answers call = Some (answers s)
            \<and> map_option req_test_id call = Some (test_id t))
       \<and> (call = None \<longrightarrow> s' = s)"
  using assms
  by (auto simp: handleSubmitTest_begin_def Let_def incomplete_not_final
        incomplete_not_final [symmetric] split: if_splits)

theorem submit_requires_confirmations_witness:
  "test example_session = Some (example_test Status_ready [1, 2, 3])
   \<and> unansweredCount (example_test Status_ready [1, 2, 3]) (answers example_session) = 2
   \<and> handleSubmitTest_begin (\<lambda>m. m \<noteq> final_message) 5000 example_session
       = (example_session, [Confirm (incomplete_message 2) True, Confirm final_message False], None)
   \<and> handleSubmitTest_begin (\<lambda>m. m = final_message) 5000 example_session
       = (example_session, [Confirm (incomplete_message 2) False], None)
   \<and> snd (snd (handleSubmitTest_begin (\<lambda>m. True) 5000 example_session)) \<noteq> None
   \<and> fst (snd (handleSubmitTest_begin (\<lambda>m. True) 5000 example_session))
       = [Confirm (incomplete_message 2) True, Confirm final_message True]"
  using submit_requires_confirmations [of example_session "example_test Status_ready [1, 2, 3]"
      "\<lambda>m. m \<noteq> final_message" 5000 example_session
      "[Confirm (incomplete_message 2) True, Confirm final_message False]" None]
    submit_requires_confirmations [of example_session "example_test Status_ready [1, 2, 3]"
      "\<lambda>m. m = final_message" 5000 example_session
      "[Confirm (incomplete_message 2) False]" None]
    submit_requires_confirmations [of example_session "example_test Status_ready [1, 2, 3]"
      "\<lambda>m. True" 5000
      "fst (handleSubmitTest_begin (\<lambda>m. True) 5000 example_session)"
      "fst (snd (handleSubmitTest_begin (\<lambda>m. True) 5000 example_session))"
      "snd (snd (handleSubmitTest_begin (\<lambda>m. True) 5000 example_session))"]
  by (simp add: example_unanswered example_session_facts handleSubmitTest_begin_def
      incomplete_not_final)

text \<open>
  C5. A confirmed submit whose call fails, with any error, leaves a session in progress
  exactly as it was before the submit began: the screen is still the test screen and the
  AnswerSet is the same. The user is told once, the submit control is enabled again, and
  a retry issues the call with the same AnswerSet. The part of the handler that runs when
  the failure arrives changes nothing but the submitting flag, whatever state it finds.
\<close>

theorem failed_submit_keeps_session:
  assumes "currentScreen s = Screen_test" and "test s = Some t" and "submit_enabled s"
    and "unansweredCount t (answers s) > 0
         \<longrightarrow> confirm (incomplete_message (unansweredCount t (answers s)))"
    and "confirm final_message"
    and "handleSubmitTest confirm now (\<lambda>request. Inl error) s = (s', shown)"
  shows "s' = s
       \<and> currentScreen s' = Screen_test \<and> answers s' = answers s
       \<and> last shown = Alert submit_failed_message
       \<and> submit_enabled s'
       \<and> map_option req_answers (snd (snd (handleSubmitTest_begin confirm now' s')))
           = Some (answers s)
       \<and> fst (handleSubmitTest_resume (Inl error) s1) = s1\<lparr>isSubmitting := False\<rparr>"
  using assms
  by (auto simp: handleSubmitTest_def handleSubmitTest_begin_def handleSubmitTest_resume_def
      submit_enabled_def Let_def split: if_splits)

theorem failed_submit_keeps_session_witness:
  "currentScreen example_session = Screen_test
   \<and> test example_session = Some (example_test Status_ready [1, 2, 3])
   \<and> submit_enabled example_session
   \<and> handleSubmitTest (\<lambda>m. True) 5000 (\<lambda>request. Inl network_error) example_session
       = (example_session,
          [Confirm (incomplete_message 2) True, Confirm final_message True,
           Alert submit_failed_message])
   \<and> answers example_session ''1'' = Some ''A''
   \<and> map_option req_answers (snd (snd (handleSubmitTest_begin (\<lambda>m. True) 9000 example_session)))
       = Some (answers example_session)"
  using failed_submit_keeps_session [of example_session "example_test Status_ready [1, 2, 3]"
      "\<lambda>m. True" 5000 network_error example_session
      "[Confirm (incomplete_message 2) True, Confirm final_message True,
        Alert submit_failed_message]" 9000 example_session]
  by (simp add: example_unanswered example_session_facts handleSubmitTest_def
      handleSubmitTest_begin_def handleSubmitTest_resume_def submit_enabled_def)
    (simp add: example_session_def)

section \<open>Time taken\<close>

lemma timer_tick_keeps: "(timer_tick now s)\<lparr>elapsedSeconds := e\<rparr> = s\<lparr>elapsedSeconds := e\<rparr>"
  by (simp add: timer_tick_def split: option.splits)

lemma timer_ticks_keeps: "(timer_ticks ticks s)\<lparr>elapsedSeconds := e\<rparr> = s\<lparr>elapsedSeconds := e\<rparr>"
proof (induction ticks arbitrary: s)
  case Nil
  show ?case by simp
next
  case (Cons now rest)
  have "(timer_ticks (now # rest) s)\<lparr>elapsedSeconds := e\<rparr> = (timer_tick now s)\<lparr>elapsedSeconds := e\<rparr>"
    using Cons.IH [of "timer_tick now s"] by simp
  then show ?case by (simp add: timer_tick_keeps)
qed

lemma timer_ticks_fields:
  "test (timer_ticks ticks s) = test s"
  "answers (timer_ticks ticks s) = answers s"
  "startTime (timer_ticks ticks s) = startTime s"
proof -
  have eq: "(timer_ticks ticks s)\<lparr>elapsedSeconds := 0\<rparr> = s\<lparr>elapsedSeconds := 0\<rparr>"
    by (rule timer_ticks_keeps)
  show "test (timer_ticks ticks s) = test s"
    using arg_cong [OF eq, of test] by simp
  show "answers (timer_ticks ticks s) = answers s"
    using arg_cong [OF eq, of answers] by simp
  show "startTime (timer_ticks ticks s) = startTime s"
    using arg_cong [OF eq, of startTime] by simp
qed

text \<open>
  C8. The time taken sent with a confirmed submit is the clock reading at submission
  minus the recorded start instant (a clock reading other than 0, which JavaScript takes
  for absent), in whole seconds rounded down, however many times the elapsed-time
  display was recomputed before.
\<close>

theorem time_taken_at_submit:
  assumes "test s = Some t"
    and "startTime s = Some t0" and "t0 \<noteq> 0"
    and "unansweredCount t (answers s) > 0
         \<longrightarrow> confirm (incomplete_message (unansweredCount t (answers s)))"
    and "confirm final_message"
  shows "map_option req_time_taken_seconds
           (snd (snd (handleSubmitTest_begin confirm now (timer_ticks ticks s))))
         = Some (Some ((now - t0) div 1000))"
  using assms by (auto simp: handleSubmitTest_begin_def timer_ticks_fields Let_def)

theorem time_taken_at_submit_witness:
  "test example_session = Some (example_test Status_ready [1, 2, 3])
   \<and> startTime example_session = Some 1000 \<and> (1000::int) \<noteq> 0
   \<and> map_option req_time_taken_seconds
        (snd (snd (handleSubmitTest_begin (\<lambda>m. True) 63999
           (timer_ticks [2000, 3000, 4500] example_session))))
      = Some (Some 62)
   \<and> map_option req_time_taken_seconds
        (snd (snd (handleSubmitTest_begin (\<lambda>m. True) 63999 example_session)))
      = Some (Some 62)"
  using time_taken_at_submit [of example_session "example_test Status_ready [1, 2, 3]" 1000
      "\<lambda>m. True" 63999 "[2000, 3000, 4500]"]
    time_taken_at_submit [of example_session "example_test Status_ready [1, 2, 3]" 1000
      "\<lambda>m. True" 63999 "[]"]
  by (simp add: example_session_def)

section \<open>The unanswered count\<close>

lemma length_filter_compl:
  "int (length (filter (\<lambda>x. \<not> P x) xs)) = int (length xs) - int (length (filter P xs))"
  using sum_length_filter_compl [of P xs] by simp

lemma truthy_label: "ran ans \<subseteq> {''A'', ''B'', ''C''} \<Longrightarrow> truthy (ans k) = (k \<in> dom ans)"
proof (cases "ans k")
  case None
  then show ?thesis by (simp add: domIff)
next
  case (Some v)
  assume "ran ans \<subseteq> {''A'', ''B'', ''C''}"
  moreover from Some have "v \<in> ran ans" by (auto simp: ran_def)
  ultimately have "v \<noteq> []" by auto
  with Some show ?thesis by (simp add: domIff)
qed

text \<open>
  C9. For a test whose question identifiers are distinct (as the data model has it) and
  an AnswerSet whose keys are among the identifiers of the test, rendered as strings, and
  whose labels are among A, B, C, the count of questions without a truthy entry that the
  submit handler computes is the number of questions minus the number of entries.
\<close>

theorem unanswered_count_refines_spec:
  assumes ids: "distinct (map q_id (questions t))"
    and keys: "dom ans \<subseteq> (\<lambda>q. toString (q_id q)) ` set (questions t)"
    and labels: "ran ans \<subseteq> {''A'', ''B'', ''C''}"
  shows "int (unansweredCount t ans) = unanswered_spec t ans"
proof -
  let ?ks = "map (\<lambda>q. toString (q_id q)) (questions t)"
  have "?ks = map toString (map q_id (questions t))" by simp
  then have dist: "distinct ?ks"
    using ids inj_toString by (metis distinct_map inj_on_subset subset_UNIV)
  have "unansweredCount t ans = length (filter (\<lambda>k. \<not> truthy (ans k)) ?ks)"
    by (simp add: unansweredCount_def filter_map comp_def)
  also have "\<dots> = length (filter (\<lambda>k. \<not> k \<in> dom ans) ?ks)"
    using truthy_label [OF labels] by simp
  finally have "int (unansweredCount t ans)
      = int (length ?ks) - int (length (filter (\<lambda>k. k \<in> dom ans) ?ks))"
    by (simp only: length_filter_compl)
  moreover have "length (filter (\<lambda>k. k \<in> dom ans) ?ks) = card (dom ans)"
  proof -
    have "length (filter (\<lambda>k. k \<in> dom ans) ?ks) = card ({k. k \<in> dom ans} \<inter> set ?ks)"
      using dist by (rule distinct_length_filter)
    moreover have "{k. k \<in> dom ans} \<inter> set ?ks = dom ans"
      using keys by auto
    ultimately show ?thesis by simp
  qed
  ultimately show ?thesis by (simp add: unanswered_spec_def)
qed

theorem unanswered_count_refines_spec_witness:
  "distinct (map q_id (questions (example_test Status_ready [1, 2, 3])))
   \<and> dom [''1'' \<mapsto> ''A''] \<subseteq> (\<lambda>q. toString (q_id q)) ` set (questions (example_test Status_ready [1, 2, 3]))
   \<and> ran [''1'' \<mapsto> ''A''] \<subseteq> {''A'', ''B'', ''C''}
   \<and> unansweredCount (example_test Status_ready [1, 2, 3]) [''1'' \<mapsto> ''A''] = 2
   \<and> unanswered_spec (example_test Status_ready [1, 2, 3]) [''1'' \<mapsto> ''A''] = 2"
  using unanswered_count_refines_spec [of "example_test Status_ready [1, 2, 3]" "[''1'' \<mapsto> ''A'']"]
  by (simp add: example_test_def example_question_def unanswered_spec_def toString_eval)

text \<open>Without distinct identifiers the two counts differ.\<close>

lemma unanswered_count_duplicate_ids:
  "unansweredCount (example_test Status_ready [1, 1]) [''1'' \<mapsto> ''A''] = 0
   \<and> unanswered_spec (example_test Status_ready [1, 1]) [''1'' \<mapsto> ''A''] = 1"
  by (simp add: example_test_def example_question_def unanswered_spec_def unansweredCount_def
      toString_eval)

section \<open>Generation\<close>

text \<open>
  A test whose status is not ready, once returned by a call that resolved, puts the
  controller on the test screen all the same: the handler never reads the status.
\<close>

theorem generate_ignores_status_counterexample:
  "status (example_test Status_error []) \<noteq> Status_ready
   \<and> currentScreen
        (handleGenerateTest_resume 1000 (Inr (example_test Status_error []))
           (fst (handleGenerateTest_begin ''d-1'' initial)))
       = Screen_test"
  by (simp add: example_test_def handleGenerateTest_def handleGenerateTest_begin_def
      handleGenerateTest_resume_def)

text \<open>
  C2 (as the code has it). When generateTest succeeds, that is when the call resolves,
  the controller, which was loading since the click, goes to the test screen whatever the
  status of the returned test is; on that transition it stores the test, resets the
  AnswerSet to empty, records the clock reading as start instant, sets the current
  question index to 0 and stops loading.
\<close>

theorem generate_success_starts_session:
  assumes "generateTest documentId = Inr t"
  shows "isGenerating (fst (handleGenerateTest_begin documentId s))
       \<and> currentScreen (handleGenerateTest generateTest now documentId s) = Screen_test
       \<and> test (handleGenerateTest generateTest now documentId s) = Some t
       \<and> answers (handleGenerateTest generateTest now documentId s) = Map.empty
       \<and> startTime (handleGenerateTest generateTest now documentId s) = Some now
       \<and> currentQuestionIndex (handleGenerateTest generateTest now documentId s) = 0
       \<and> \<not> isGenerating (handleGenerateTest generateTest now documentId s)"
  using assms
  by (simp add: handleGenerateTest_def handleGenerateTest_begin_def handleGenerateTest_resume_def)

theorem generate_success_starts_session_witness:
  "(\<lambda>documentId. Inr (example_test Status_generating [1, 2])) ''d-1''
     = (Inr (example_test Status_generating [1, 2]) :: AxiosError + DocumentTest)
   \<and> currentScreen (handleGenerateTest (\<lambda>documentId. Inr (example_test Status_generating [1, 2]))
        7000 ''d-1'' example_session) = Screen_test
   \<and> answers (handleGenerateTest (\<lambda>documentId. Inr (example_test Status_generating [1, 2]))
        7000 ''d-1'' example_session) = Map.empty
   \<and> startTime (handleGenerateTest (\<lambda>documentId. Inr (example_test Status_generating [1, 2]))
        7000 ''d-1'' example_session) = Some 7000
   \<and> currentQuestionIndex (handleGenerateTest (\<lambda>documentId. Inr (example_test Status_generating [1, 2]))
        7000 ''d-1'' example_session) = 0"
  using generate_success_starts_session [of "\<lambda>documentId. Inr (example_test Status_generating [1, 2])"
      "''d-1''" "example_test Status_generating [1, 2]" example_session 7000]
  by simp

section \<open>Failure messages\<close>

text \<open>
  The message of the specification differs from the one the controller shows: a failed
  generate call whose body carries only a detail field shows the generic text, and a
  failed submit call whose body carries an error field shows the generic text as well.
\<close>

theorem error_message_precedence_counterexample:
  "message_spec generate_fallback (server_error (no_fields\<lparr>data_detail := Some ''No content''\<rparr>))
     = ''No content''
   \<and> generateError (handleGenerateTest_resume 1000
        (Inl (server_error (no_fields\<lparr>data_detail := Some ''No content''\<rparr>))) initial)
     = Some generate_fallback
   \<and> generate_fallback \<noteq> ''No content''
   \<and> message_spec submit_failed_message (server_error (no_fields\<lparr>data_error := Some ''Test expired''\<rparr>))
     = ''Test expired''
   \<and> snd (handleSubmitTest_resume
        (Inl (server_error (no_fields\<lparr>data_error := Some ''Test expired''\<rparr>))) example_session)
     = [Alert submit_failed_message]
   \<and> submit_failed_message \<noteq> ''Test expired''"
  by (simp add: message_spec_def response_field_def server_error_def no_fields_def
      handleGenerateTest_resume_def handleSubmitTest_resume_def js_or_def generate_fallback_def
      submit_failed_message_def)

text \<open>
  C3 (as the code has it). A failed generate call shows the error field of the response
  body if it is a non-empty string, otherwise the message field if it is a non-empty
  string, otherwise the fixed text \<open>Failed to generate test. Please try again.\<close>; the
  screen and the AnswerSet stay as they are. A failed submit call shows the fixed text
  \<open>Failed to submit test. Please try again.\<close>, whatever the response carries, and
  keeps the AnswerSet.
\<close>

theorem error_message_of_the_code:
  "(response_field data_error error = Some e \<and> e \<noteq> []
      \<longrightarrow> generateError (handleGenerateTest_resume now (Inl error) s) = Some e)
   \<and> (\<not> truthy (response_field data_error error)
        \<and> response_field data_message error = Some m \<and> m \<noteq> []
      \<longrightarrow> generateError (handleGenerateTest_resume now (Inl error) s) = Some m)
   \<and> (\<not> truthy (response_field data_error error) \<and> \<not> truthy (response_field data_message error)
      \<longrightarrow> generateError (handleGenerateTest_resume now (Inl error) s) = Some generate_fallback)
   \<and> currentScreen (handleGenerateTest_resume now (Inl error) s) = currentScreen s
   \<and> answers (handleGenerateTest_resume now (Inl error) s) = answers s
   \<and> snd (handleSubmitTest_resume (Inl error) s) = [Alert submit_failed_message]
   \<and> answers (fst (handleSubmitTest_resume (Inl error) s)) = answers s"
  by (simp add: handleGenerateTest_resume_def handleSubmitTest_resume_def js_or_def)

theorem error_message_of_the_code_witness:
  "generateError (handleGenerateTest_resume 1000
       (Inl (server_error (no_fields\<lparr>data_error := Some ''No content'', data_message := Some ''m'',
          data_detail := Some ''d''\<rparr>))) initial) = Some ''No content''
   \<and> generateError (handleGenerateTest_resume 1000
       (Inl (server_error (no_fields\<lparr>data_error := Some '''', data_message := Some ''m'',
          data_detail := Some ''d''\<rparr>))) initial) = Some ''m''
   \<and> generateError (handleGenerateTest_resume 1000 (Inl network_error) initial)
       = Some generate_fallback"
  using error_message_of_the_code [of
      "server_error (no_fields\<lparr>data_error := Some ''No content'', data_message := Some ''m'',
          data_detail := Some ''d''\<rparr>)" "''No content''" 1000 initial "''m''"]
    error_message_of_the_code [of
      "server_error (no_fields\<lparr>data_error := Some '''', data_message := Some ''m'',
          data_detail := Some ''d''\<rparr>)" "''x''" 1000 initial "''m''"]
    error_message_of_the_code [of network_error "''x''" 1000 initial "''m''"]
  by (simp add: response_field_def server_error_def network_error_def no_fields_def)

section \<open>Token refresh and replay\<close>

lemma retry_request_interceptor: "retry (request_interceptor w cfg) = retry cfg"
  by (simp add: request_interceptor_def getAccessToken_def split: option.splits)

lemma config_transmit: "transmit srv cfg w = (Inl error, w1) \<Longrightarrow> config error = cfg"
  by (auto simp: transmit_def split: option.splits if_splits)

lemma sent_transmit: "sent (snd (transmit srv cfg w)) = sent w @ [cfg]"
  by (simp add: transmit_def split: option.splits)

lemma tokens_transmit:
  "accessToken (snd (transmit srv cfg w)) = accessToken w"
  "refreshToken (snd (transmit srv cfg w)) = refreshToken w"
  "location_href (snd (transmit srv cfg w)) = location_href w"
  by (simp_all add: transmit_def split: option.splits)

lemma axiosInstance_retried:
  "retry cfg \<Longrightarrow> axiosInstance srv cfg w = transmit srv (request_interceptor w cfg) w"
  by (subst axiosInstance.simps)
     (auto split: prod.splits sum.splits dest!: config_transmit simp: retry_request_interceptor)

text \<open>The request interceptor on the replayed configuration, after \<open>setTokens\<close>.\<close>

lemma request_interceptor_replay:
  "accessToken w = Some a \<Longrightarrow> Authorization cfg = Some (''Bearer '' @ a)
   \<Longrightarrow> request_interceptor w cfg = cfg"
  by (simp add: request_interceptor_def getAccessToken_def)

lemma transmit_401:
  "srv (sent w) cfg = Some r \<Longrightarrow> http_status r = 401
   \<Longrightarrow> transmit srv cfg w = (Inl \<lparr> response = Some r, config = cfg \<rparr>, w\<lparr>sent := sent w @ [cfg]\<rparr>)"
  by (simp add: transmit_def)

lemma no_token:
  assumes "\<not> retry cfg" and "srv (sent w) (request_interceptor w cfg) = Some r"
    and "http_status r = 401" and "\<not> truthy (refreshToken w)"
  shows "axiosInstance srv cfg w
         = (Inl \<lparr> response = Some r, config = (request_interceptor w cfg)\<lparr>retry := True\<rparr> \<rparr>,
            w\<lparr>sent := sent w @ [request_interceptor w cfg]\<rparr>)"
  using assms
  by (subst axiosInstance.simps)
     (auto simp: transmit_401 error_status_def retry_request_interceptor getRefreshToken_def
           split: option.splits)

lemma refresh_fails:
  assumes "\<not> retry cfg" and "srv (sent w) (request_interceptor w cfg) = Some r"
    and "http_status r = 401" and "refreshToken w = Some rt" and "rt \<noteq> []"
    and "transmit srv (refresh_request rt) (w\<lparr>sent := sent w @ [request_interceptor w cfg]\<rparr>)
         = (Inl refreshError, w2)"
  shows "axiosInstance srv cfg w
         = (Inl refreshError, (clearTokens w2)\<lparr>location_href := ''/login''\<rparr>)"
  using assms
  by (subst axiosInstance.simps)
     (auto simp: transmit_401 error_status_def retry_request_interceptor getRefreshToken_def
           split: option.splits)

lemma refresh_succeeds:
  assumes "\<not> retry cfg" and "srv (sent w) (request_interceptor w cfg) = Some r"
    and "http_status r = 401" and "refreshToken w = Some rt" and "rt \<noteq> []"
    and "transmit srv (refresh_request rt) (w\<lparr>sent := sent w @ [request_interceptor w cfg]\<rparr>)
         = (Inr r2, w2)"
    and "data_access (http_data r2) = Some a"
  shows "axiosInstance srv cfg w
         = transmit srv
             ((request_interceptor w cfg)\<lparr>retry := True, Authorization := Some (''Bearer '' @ a)\<rparr>)
             (setTokens a rt w2)"
  using assms
  by (subst axiosInstance.simps)
     (auto simp: transmit_401 error_status_def retry_request_interceptor getRefreshToken_def
           axiosInstance_retried request_interceptor_replay setTokens_def
           split: option.splits)

lemma transmitD: "transmit srv cfg w = (res, w1) \<Longrightarrow> w1 = w\<lparr>sent := sent w @ [cfg]\<rparr>"
  by (auto simp: transmit_def split: option.splits if_splits)

lemma at_most_three:
  "length (sent (snd (axiosInstance srv cfg w))) \<le> length (sent w) + 3"
  by (subst axiosInstance.simps)
     (auto split: sum.splits option.splits prod.splits dest!: transmitD
        simp: axiosInstance_retried sent_transmit clearTokens_def setTokens_def Let_def)

text \<open>
  A request that fails with 401 while the browser holds no refresh token is neither
  followed by a refresh call nor replayed: one request goes on the wire and the call
  fails with the 401.
\<close>

theorem replay_exactly_once_counterexample:
  "axiosInstance server_rejecting example_config logged_out
   = (Inl \<lparr> response = Some unauthorized, config = example_config\<lparr>retry := True\<rparr> \<rparr>,
      logged_out\<lparr>sent := [example_config]\<rparr>)
   \<and> http_status unauthorized = 401"
  by (subst axiosInstance.simps)
     (simp add: transmit_def request_interceptor_def getAccessToken_def getRefreshToken_def
        logged_out_def server_rejecting_def unauthorized_def error_status_def example_config_def)

text \<open>
  C10 (as the code has it). Take a request not yet marked as retried whose first attempt
  fails with 401. If no non-empty refresh token is stored, the call fails with that
  error, with no refresh call and no replay. If the refresh call fails, its error is the
  outcome, the tokens are cleared and the browser is sent to /login, with no replay. If
  the refresh call succeeds with a new access token, the token is stored and the
  original request is replayed exactly once, marked as retried and carrying the new
  bearer token: the wire sees the request, the refresh call and the replay, and the
  outcome of the replay is the outcome of the call, also when it is another 401. No call
  puts more than three requests on the wire, and a request marked as retried is sent
  once and never replayed.
\<close>

theorem single_replay_after_refresh:
  assumes "\<not> retry cfg"
    and "first = request_interceptor w cfg"
    and "srv (sent w) first = Some r" and "http_status r = 401"
    and "after_first = w\<lparr>sent := sent w @ [first]\<rparr>"
    and "replay = first\<lparr>retry := True, Authorization := Some (''Bearer '' @ a)\<rparr>"
  shows "(\<not> truthy (refreshToken w) \<longrightarrow>
            axiosInstance srv cfg w
            = (Inl \<lparr> response = Some r, config = first\<lparr>retry := True\<rparr> \<rparr>, after_first))
       \<and> (refreshToken w = Some rt \<and> rt \<noteq> []
            \<and> transmit srv (refresh_request rt) after_first = (Inl refreshError, after_refresh) \<longrightarrow>
            axiosInstance srv cfg w
            = (Inl refreshError,
               w\<lparr>sent := sent w @ [first, refresh_request rt], accessToken := None,
                  refreshToken := None, location_href := ''/login''\<rparr>))
       \<and> (refreshToken w = Some rt \<and> rt \<noteq> []
            \<and> transmit srv (refresh_request rt) after_first = (Inr refreshed, after_refresh)
            \<and> data_access (http_data refreshed) = Some a \<longrightarrow>
            axiosInstance srv cfg w
            = transmit srv replay
                (w\<lparr>sent := sent w @ [first, refresh_request rt], accessToken := Some a\<rparr>)
            \<and> sent (snd (axiosInstance srv cfg w)) = sent w @ [first, refresh_request rt, replay]
            \<and> (srv (sent w @ [first, refresh_request rt]) replay = Some replayed \<and> http_status replayed = 401 \<longrightarrow>
                 fst (axiosInstance srv cfg w) = Inl \<lparr> response = Some replayed, config = replay \<rparr>))
       \<and> length (sent (snd (axiosInstance srv cfg w))) \<le> length (sent w) + 3
       \<and> axiosInstance srv replay w = transmit srv (request_interceptor w replay) w"
proof -
  have none: "axiosInstance srv cfg w
            = (Inl \<lparr> response = Some r, config = first\<lparr>retry := True\<rparr> \<rparr>, after_first)"
    if "\<not> truthy (refreshToken w)"
    using no_token [of cfg srv w r] assms that by simp
  have fails: "axiosInstance srv cfg w
            = (Inl refreshError,
               w\<lparr>sent := sent w @ [first, refresh_request rt], accessToken := None,
                  refreshToken := None, location_href := ''/login''\<rparr>)"
    if "refreshToken w = Some rt" "rt \<noteq> []"
      "transmit srv (refresh_request rt) after_first = (Inl refreshError, after_refresh)"
  proof -
    have "after_refresh = after_first\<lparr>sent := sent after_first @ [refresh_request rt]\<rparr>"
      using that(3) by (rule transmitD)
    then show ?thesis
      using refresh_fails [of cfg srv w r rt refreshError after_refresh] assms that
      by (simp add: clearTokens_def)
  qed
  have once: "axiosInstance srv cfg w
            = transmit srv replay
                (w\<lparr>sent := sent w @ [first, refresh_request rt], accessToken := Some a\<rparr>)"
    if "refreshToken w = Some rt" "rt \<noteq> []"
      "transmit srv (refresh_request rt) after_first = (Inr refreshed, after_refresh)"
      "data_access (http_data refreshed) = Some a"
  proof -
    have after_refresh: "after_refresh = after_first\<lparr>sent := sent after_first @ [refresh_request rt]\<rparr>"
      using that(3) by (rule transmitD)
    have same: "b\<lparr>refreshToken := Some rt\<rparr> = b" if "refreshToken b = Some rt" for b :: Browser
      using that by (cases b) simp
    show ?thesis
      using refresh_succeeds [of cfg srv w r rt refreshed after_refresh a] assms that after_refresh
      by (simp add: setTokens_def same)
  qed
  have bound: "length (sent (snd (axiosInstance srv cfg w))) \<le> length (sent w) + 3"
    by (rule at_most_three)
  have again: "axiosInstance srv replay w = transmit srv (request_interceptor w replay) w"
    using assms(6) by (simp add: axiosInstance_retried)
  show ?thesis
    using none fails once bound again
    by (auto simp: sent_transmit transmit_401)
qed

theorem single_replay_after_refresh_witness:
  "\<not> retry example_config
   \<and> axiosInstance server_rejecting example_config logged_out
       = (Inl \<lparr> response = Some unauthorized, config = example_config\<lparr>retry := True\<rparr> \<rparr>,
          logged_out\<lparr>sent := [example_config]\<rparr>)
   \<and> axiosInstance server_rejecting example_config logged_in
       = (Inl \<lparr> response = Some unauthorized, config = refresh_request ''r-1'' \<rparr>,
          logged_in\<lparr>sent := [example_config\<lparr>Authorization := Some ''Bearer old''\<rparr>,
                              refresh_request ''r-1''],
            accessToken := None, refreshToken := None, location_href := ''/login''\<rparr>)
   \<and> axiosInstance server_refreshing example_config logged_in
       = (Inl \<lparr> response = Some unauthorized,
                config = example_config\<lparr>retry := True, Authorization := Some ''Bearer new''\<rparr> \<rparr>,
          logged_in\<lparr>sent := [example_config\<lparr>Authorization := Some ''Bearer old''\<rparr>,
                              refresh_request ''r-1'',
                              example_config\<lparr>retry := True, Authorization := Some ''Bearer new''\<rparr>],
            accessToken := Some ''new''\<rparr>)"
  using
    single_replay_after_refresh [where cfg = example_config and w = logged_out
      and srv = server_rejecting and first = example_config and r = unauthorized
      and after_first = "logged_out\<lparr>sent := [example_config]\<rparr>" and a = "''x''"
      and replay = "example_config\<lparr>retry := True, Authorization := Some ''Bearer x''\<rparr>"]
    single_replay_after_refresh [where cfg = example_config and w = logged_in
      and srv = server_rejecting
      and first = "example_config\<lparr>Authorization := Some ''Bearer old''\<rparr>"
      and r = unauthorized
      and after_first = "logged_in\<lparr>sent := [example_config\<lparr>Authorization := Some ''Bearer old''\<rparr>]\<rparr>"
      and a = "''x''"
      and replay = "example_config\<lparr>retry := True, Authorization := Some ''Bearer x''\<rparr>"
      and rt = "''r-1''"
      and refreshError = "\<lparr> response = Some unauthorized, config = refresh_request ''r-1'' \<rparr>"
      and after_refresh = "logged_in\<lparr>sent := [example_config\<lparr>Authorization := Some ''Bearer old''\<rparr>,
                     refresh_request ''r-1'']\<rparr>"]
    single_replay_after_refresh [where cfg = example_config and w = logged_in
      and srv = server_refreshing
      and first = "example_config\<lparr>Authorization := Some ''Bearer old''\<rparr>"
      and r = unauthorized
      and after_first = "logged_in\<lparr>sent := [example_config\<lparr>Authorization := Some ''Bearer old''\<rparr>]\<rparr>"
      and a = "''new''"
      and replay = "example_config\<lparr>retry := True, Authorization := Some ''Bearer new''\<rparr>"
      and rt = "''r-1''"
      and refreshed = "\<lparr> http_status = 200, http_data = no_fields\<lparr>data_access := Some ''new''\<rparr> \<rparr>"
      and after_refresh = "logged_in\<lparr>sent := [example_config\<lparr>Authorization := Some ''Bearer old''\<rparr>,
                     refresh_request ''r-1'']\<rparr>"
      and replayed = unauthorized]
  by (simp add: transmit_def request_interceptor_def getAccessToken_def refresh_request_def
      logged_out_def logged_in_def server_rejecting_def server_refreshing_def unauthorized_def
      example_config_def API_BASE_URL_def no_fields_def)

end
